theory Spec2Isabelle
  imports Complex_Main "HOL-Library.AList" "HOL-Library.Word"
begin

section \<open>The HitBTC market connector: data model\<close>

text \<open>
  The development embeds \<^verbatim>\<open>hummingbot/market/hitbtc/hitbtc_market.pyx\<close>.
  Python \<^verbatim>\<open>Decimal\<close> values are rationals: every amount and price of the connector is
  a decimal fraction, and the sums, differences and products taken here are exact as long as
  they stay within the 28 significant digits of the default decimal context.
\<close>

type_synonym decimal = rat

datatype order_type = LIMIT | MARKET

datatype trade_type = BUY | SELL

text \<open>
  A Python \<^verbatim>\<open>str\<close> object where the source compares by identity (\<^verbatim>\<open>is\<close>):
  its characters, and whether it is the interned object for these characters. The string
  literals of the module are interned constants, so \<^verbatim>\<open>x is "lit"\<close> holds exactly
  when \<^verbatim>\<open>x\<close> is the interned object with the characters of the literal.
\<close>

datatype pystr = PyStr (chars: string) (interned: bool)

definition py_is :: "pystr option \<Rightarrow> string \<Rightarrow> bool" where
  "py_is x lit = (case x of None \<Rightarrow> False | Some s \<Rightarrow> chars s = lit \<and> interned s)"

text \<open>Parsed JSON, as \<^verbatim>\<open>response.json()\<close> returns it.\<close>

datatype json =
    JNull
  | JBool bool
  | JNum rat
  | JStr pystr
  | JList "json list"
  | JObj "(string \<times> json) list"

datatype exn =
    CancelledError
  | HitBTCAPIError json
  | IOError
  | ValueError
  | KeyError
  | IndexError
  | TypeError
  | AttributeError
  | TimeoutError
  | OtherException

text \<open>
  \<^verbatim>\<open>HitBTCAPIError.__init__\<close>: the exception keeps \<^verbatim>\<open>error_payload.get("error")\<close>
  of the dict it is given.
\<close>

definition HitBTCAPIError_init :: "(string \<times> json) list \<Rightarrow> exn" where
  "HitBTCAPIError_init error_payload =
     HitBTCAPIError (case map_of error_payload ''error'' of None \<Rightarrow> JNull | Some v \<Rightarrow> v)"

text \<open>\<^verbatim>\<open>x.get(key)\<close>: only a dict has the method.\<close>

fun py_get :: "json \<Rightarrow> string \<Rightarrow> exn + json" where
  "py_get (JObj kvs) k = Inr (case map_of kvs k of None \<Rightarrow> JNull | Some v \<Rightarrow> v)"
| "py_get _ k = Inl AttributeError"

fun starts_with :: "string \<Rightarrow> string \<Rightarrow> bool" where
  "starts_with [] s = True"
| "starts_with (p # ps) [] = False"
| "starts_with (p # ps) (c # cs) = (p = c \<and> starts_with ps cs)"

fun is_substring :: "string \<Rightarrow> string \<Rightarrow> bool" where
  "is_substring p [] = (p = [])"
| "is_substring p (c # cs) = (starts_with p (c # cs) \<or> is_substring p cs)"

text \<open>
  \<^verbatim>\<open>'lit' in x\<close>: a key of a dict, a substring of a string, an element of a list;
  \<^verbatim>\<open>TypeError\<close> for a value that is no container.
\<close>

fun py_contains :: "string \<Rightarrow> json \<Rightarrow> exn + bool" where
  "py_contains lit (JObj kvs) = Inr (lit \<in> set (map fst kvs))"
| "py_contains lit (JStr s) = Inr (is_substring lit (chars s))"
| "py_contains lit (JList xs) = Inr (list_ex (\<lambda>x. case x of JStr s \<Rightarrow> chars s = lit | _ \<Rightarrow> False) xs)"
| "py_contains lit _ = Inl TypeError"

record trading_rule =
  min_order_size :: decimal
  max_order_size :: decimal
  min_price_increment :: decimal
  min_base_amount_increment :: decimal
  min_quote_amount_increment :: decimal

text \<open>
  \<^verbatim>\<open>HitBTCInFlightOrder\<close>. The fields \<open>base_asset\<close> and \<open>quote_asset\<close> hold the
  values of the properties of the same name.
\<close>

record in_flight_order =
  client_order_id :: string
  exchange_order_id :: string
  trading_pair :: string
  order_type :: order_type
  trade_type :: trade_type
  price :: decimal
  amount :: decimal
  executed_amount_base :: decimal
  executed_amount_quote :: decimal
  fee_asset :: "string option"
  fee_paid :: decimal
  last_state :: "string option"
  base_asset :: string
  quote_asset :: string

text \<open>
  Modelled from the spec: the class \<^verbatim>\<open>HitBTCInFlightOrder\<close> (its constructor and its
  properties \<^verbatim>\<open>is_open\<close>, \<^verbatim>\<open>is_done\<close>, \<^verbatim>\<open>is_cancelled\<close>) is not part of the sources.
  The spec: an order is created in state New with nothing executed; New, Suspended and
  PartiallyFilled are open; Filled, Cancelled and Expired are terminal; Expired is
  treated as a cancellation in the completion branch.
\<close>

definition HitBTCInFlightOrder_init ::
  "string \<Rightarrow> string \<Rightarrow> string \<Rightarrow> order_type \<Rightarrow> trade_type \<Rightarrow> decimal \<Rightarrow> decimal
     \<Rightarrow> string \<times> string \<Rightarrow> in_flight_order" where
  "HitBTCInFlightOrder_init cid eid pair ot tt p a assets =
     \<lparr> client_order_id = cid, exchange_order_id = eid, trading_pair = pair,
       order_type = ot, trade_type = tt, price = p, amount = a,
       executed_amount_base = 0, executed_amount_quote = 0,
       fee_asset = None, fee_paid = 0, last_state = Some ''new'',
       base_asset = fst assets, quote_asset = snd assets \<rparr>"

definition is_open :: "in_flight_order \<Rightarrow> bool" where
  "is_open ord = (last_state ord \<in> {Some ''new'', Some ''suspended'', Some ''partiallyFilled''})"

definition is_done :: "in_flight_order \<Rightarrow> bool" where
  "is_done ord = (last_state ord \<in> {Some ''filled'', Some ''canceled'', Some ''expired''})"

definition is_cancelled :: "in_flight_order \<Rightarrow> bool" where
  "is_cancelled ord = (last_state ord \<in> {Some ''canceled'', Some ''expired''})"

datatype trade_fee = TradeFee (percent: decimal)

text \<open>The events handed to \<^verbatim>\<open>c_trigger_event\<close>, each with the fields of its constructor call.\<close>

datatype event =
    OrderFilledEvent rat string string trade_type order_type decimal decimal trade_fee string
  | BuyOrderCompletedEvent rat string string string string decimal decimal decimal order_type
  | SellOrderCompletedEvent rat string string string string decimal decimal decimal order_type
  | OrderCancelledEvent rat string
  | MarketOrderFailureEvent rat string order_type
  | BuyOrderCreatedEvent rat order_type string decimal decimal string
  | SellOrderCreatedEvent rat order_type string decimal decimal string

datatype log_level = DEBUG | INFO | WARNING | ERROR | NETWORK

type_synonym log_entry = "log_level \<times> string"

text \<open>A call of the request layer: method, path and whether it is authenticated.\<close>

datatype request = Request string string bool

text \<open>
  The state of \<^verbatim>\<open>HitBTCMarket\<close> that the order workflow reads and writes. The registry
  \<open>in_flight_orders\<close> is the dict \<^verbatim>\<open>_in_flight_orders\<close> in insertion order; \<open>events\<close>,
  \<open>logs\<close> and \<open>requests\<close> record, in order, the events triggered, the log calls made
  and the calls that reached \<^verbatim>\<open>_api_request\<close>.
\<close>

record market =
  in_flight_orders :: "(string \<times> in_flight_order) list"
  trading_rules :: "(string \<times> trading_rule) list"
  current_timestamp :: rat
  last_poll_timestamp :: rat
  events :: "event list"
  logs :: "log_entry list"
  requests :: "request list"

definition c_trigger_event :: "event \<Rightarrow> market \<Rightarrow> market" where
  "c_trigger_event e m = m\<lparr>events := events m @ [e]\<rparr>"

definition logger :: "log_level \<Rightarrow> string \<Rightarrow> market \<Rightarrow> market" where
  "logger lvl msg m = m\<lparr>logs := logs m @ [(lvl, msg)]\<rparr>"

definition c_start_tracking_order ::
  "(string \<Rightarrow> string \<times> string) \<Rightarrow> string \<Rightarrow> string \<Rightarrow> string \<Rightarrow> order_type \<Rightarrow> trade_type
     \<Rightarrow> decimal \<Rightarrow> decimal \<Rightarrow> market \<Rightarrow> market" where
  "c_start_tracking_order assets cid eid pair ot tt p a m =
     m\<lparr>in_flight_orders :=
         AList.update cid (HitBTCInFlightOrder_init cid eid pair ot tt p a (assets pair))
           (in_flight_orders m)\<rparr>"

definition c_stop_tracking_order :: "string \<Rightarrow> market \<Rightarrow> market" where
  "c_stop_tracking_order order_id m =
     (if order_id \<in> set (map fst (in_flight_orders m))
      then m\<lparr>in_flight_orders := AList.delete order_id (in_flight_orders m)\<rparr>
      else m)"

text \<open>
  The registry holds references: assigning to a field of a tracked order changes the object
  the registry holds. An object is identified by its client order id, the key it is
  registered under; an object that is no longer registered is not reachable from the state.
\<close>

definition write_back :: "in_flight_order \<Rightarrow> market \<Rightarrow> market" where
  "write_back ord m =
     m\<lparr>in_flight_orders :=
         map (\<lambda>(k, v). if k = client_order_id ord then (k, ord) else (k, v)) (in_flight_orders m)\<rparr>"

definition c_get_fee ::
  "string \<Rightarrow> string \<Rightarrow> order_type \<Rightarrow> trade_type \<Rightarrow> decimal \<Rightarrow> decimal \<Rightarrow> trade_fee" where
  "c_get_fee base_currency quote_currency ot side amt p = TradeFee (7 / 10000)"

section \<open>The status poll\<close>

text \<open>
  One row of the order-status reply: the fields \<^verbatim>\<open>_update_order_status\<close> reads with
  \<^verbatim>\<open>order_update[...]\<close>. The two amounts are the values of \<^verbatim>\<open>Decimal(...)\<close> of the
  fields.
\<close>

record order_update =
  u_status :: string
  u_cumQuantity :: decimal
  u_price :: decimal

definition recognized_states :: "string list" where
  "recognized_states =
     [''new'', ''suspended'', ''partiallyFilled'', ''filled'', ''canceled'', ''expired'']"

text \<open>
  The body of the loop of \<^verbatim>\<open>_update_order_status\<close> from \<^verbatim>\<open>order_state = ...\<close> on, for
  one tracked order and its update row.
\<close>

definition process_order_update :: "in_flight_order \<Rightarrow> order_update \<Rightarrow> market \<Rightarrow> market" where
  "process_order_update tracked_order order_update m =
    (let order_state = u_status order_update;
         m1 = (if order_state \<notin> set recognized_states
               then logger DEBUG ''Unrecognized order update response'' m else m);
         o1 = tracked_order\<lparr>last_state := Some order_state\<rparr>;
         new_confirmed_amount = u_cumQuantity order_update;
         execute_amount_diff = new_confirmed_amount - executed_amount_base o1;
         (o4, m4) =
           (if execute_amount_diff > 0 then
              (let o2 = o1\<lparr>executed_amount_base := new_confirmed_amount,
                          executed_amount_quote := u_price order_update * new_confirmed_amount\<rparr>;
                   execute_price = u_price order_update;
                   fee = c_get_fee (base_asset o2) (quote_asset o2) (order_type o2)
                           (trade_type o2) execute_price execute_amount_diff;
                   o3 = o2\<lparr>fee_paid := executed_amount_quote o2 * percent fee\<rparr>;
                   order_filled_event =
                     OrderFilledEvent (current_timestamp m1) (client_order_id o3)
                       (trading_pair o3) (trade_type o3) (order_type o3)
                       execute_price execute_amount_diff fee (exchange_order_id o3)
               in (o3, c_trigger_event order_filled_event
                         (logger INFO ''Filled'' (write_back o3 m1))))
            else (o1, write_back o1 m1))
     in if is_open o4 then m4
        else if is_done o4 then
          (if \<not> is_cancelled o4 then
             (let m5 = c_stop_tracking_order (client_order_id o4) m4 in
              if trade_type o4 = BUY then
                c_trigger_event
                  (BuyOrderCompletedEvent (current_timestamp m5) (client_order_id o4)
                     (base_asset o4) (quote_asset o4)
                     (case fee_asset o4 of Some a \<Rightarrow> a | None \<Rightarrow> base_asset o4)
                     (executed_amount_base o4) (executed_amount_quote o4) (fee_paid o4)
                     (order_type o4))
                  (logger INFO ''The market buy order has completed'' m5)
              else
                c_trigger_event
                  (SellOrderCompletedEvent (current_timestamp m5) (client_order_id o4)
                     (base_asset o4) (quote_asset o4)
                     (case fee_asset o4 of Some a \<Rightarrow> a | None \<Rightarrow> quote_asset o4)
                     (executed_amount_base o4) (executed_amount_quote o4) (fee_paid o4)
                     (order_type o4))
                  (logger INFO ''The market sell order has completed'' m5))
           else
             c_trigger_event
               (OrderCancelledEvent (current_timestamp m4) (client_order_id o4))
               (logger INFO ''The market order has been cancelled''
                  (c_stop_tracking_order (client_order_id o4) m4)))
        else m4)"

text \<open>
  What \<^verbatim>\<open>await self.get_order_status(order_id)\<close> does: it raises, or it returns the
  parsed list of rows (\<open>None\<close> for a JSON null).
\<close>

datatype status_reply = Status_raises exn | Status_rows "order_update option list"

text \<open>
  A stateful operation returns the exception it raised, if any, and the state it leaves:
  what was mutated before a raise stays mutated.
\<close>

type_synonym 'a outcome = "(exn + 'a) \<times> market"

text \<open>
  One iteration of the loop of \<^verbatim>\<open>_update_order_status\<close>: the status request, the
  handler of \<^verbatim>\<open>HitBTCAPIError\<close> (any other exception leaves the loop), the check for a
  missing row, and the update.
\<close>

definition poll_tracked_order :: "in_flight_order \<Rightarrow> status_reply \<Rightarrow> market \<Rightarrow> unit outcome" where
  "poll_tracked_order tracked_order reply m =
    (let m0 = m\<lparr>requests := requests m @ [Request ''GET'' ''/api/2/history/order'' True]\<rparr> in
     case reply of
       Status_raises (HitBTCAPIError error_payload) \<Rightarrow>
         (case py_get error_payload ''error'' of
            Inl e \<Rightarrow> (Inl e, m0)
          | Inr err \<Rightarrow>
             (case py_get err ''code'' of
                Inl e \<Rightarrow> (Inl e, m0)
              | Inr err_code \<Rightarrow>
                 (Inr (),
                  c_trigger_event
                    (MarketOrderFailureEvent (current_timestamp m0)
                       (client_order_id tracked_order) (order_type tracked_order))
                    (logger INFO ''The limit order has failed according to order status API''
                       (c_stop_tracking_order (client_order_id tracked_order) m0)))))
     | Status_raises e \<Rightarrow> (Inl e, m0)
     | Status_rows [] \<Rightarrow> (Inl IndexError, m0)
     | Status_rows (None # _) \<Rightarrow>
         (Inr (), logger NETWORK ''Error fetching status update for the order'' m0)
     | Status_rows (Some order_update # _) \<Rightarrow>
         (Inr (), process_order_update tracked_order order_update m0))"

fun poll_loop ::
  "in_flight_order list \<Rightarrow> (string \<Rightarrow> status_reply) \<Rightarrow> market \<Rightarrow> unit outcome" where
  "poll_loop [] replies m = (Inr (), m)"
| "poll_loop (tracked_order # rest) replies m =
     (case poll_tracked_order tracked_order (replies (client_order_id tracked_order)) m of
        (Inl e, m') \<Rightarrow> (Inl e, m')
      | (Inr _, m') \<Rightarrow> poll_loop rest replies m')"

text \<open>The C cast \<^verbatim>\<open><int64_t>(timestamp / interval)\<close> truncates towards zero.\<close>

definition tick_of :: "rat \<Rightarrow> rat \<Rightarrow> int" where
  "tick_of timestamp interval =
     (let q = timestamp / interval in if q < 0 then \<lceil>q\<rceil> else \<lfloor>q\<rfloor>)"

definition UPDATE_ORDERS_INTERVAL :: rat where
  "UPDATE_ORDERS_INTERVAL = 10"

text \<open>\<^verbatim>\<open>_update_order_status\<close>, with the venue's reply to each status request given.\<close>

definition update_order_status :: "(string \<Rightarrow> status_reply) \<Rightarrow> market \<Rightarrow> unit outcome" where
  "update_order_status replies m =
    (let last_tick = tick_of (last_poll_timestamp m) UPDATE_ORDERS_INTERVAL;
         current_tick = tick_of (current_timestamp m) UPDATE_ORDERS_INTERVAL
     in if current_tick > last_tick \<and> length (in_flight_orders m) > 0
        then poll_loop (map snd (in_flight_orders m)) replies m
        else (Inr (), m))"

text \<open>
  The successive update rows that the poll delivers for the order registered under
  \<open>order_id\<close>. The poll runs over the tracked orders only: a row is applied as long as the
  order is registered, and nothing is polled for it afterwards.
\<close>

fun poll_sequence :: "string \<Rightarrow> order_update list \<Rightarrow> market \<Rightarrow> market" where
  "poll_sequence order_id [] m = m"
| "poll_sequence order_id (u # us) m =
     (case map_of (in_flight_orders m) order_id of
        None \<Rightarrow> m
      | Some tracked_order \<Rightarrow> poll_sequence order_id us (process_order_update tracked_order u m))"

section \<open>The user stream\<close>

text \<open>
  A message of the user stream: the fields \<^verbatim>\<open>_user_stream_event_listener\<close> reads with
  \<^verbatim>\<open>order_update.get(...)\<close>, \<open>None\<close> for an absent key.
\<close>

record stream_message =
  s_status :: "string option"
  s_clientOrderId :: "string option"
  s_tradePrice :: "decimal option"
  s_tradeQuantity :: "decimal option"
  s_tradeFee :: "decimal option"
  s_reportType :: "pystr option"

definition get_default :: "'a option \<Rightarrow> 'a \<Rightarrow> 'a" where
  "get_default x d = (case x of None \<Rightarrow> d | Some v \<Rightarrow> v)"

text \<open>The body of the loop of \<^verbatim>\<open>_user_stream_event_listener\<close> for one message.\<close>

definition on_user_stream_message :: "stream_message \<Rightarrow> market \<Rightarrow> market" where
  "on_user_stream_message order_update m =
    (let order_state = s_status order_update;
         order_id = s_clientOrderId order_update
     in case (case order_id of None \<Rightarrow> None | Some k \<Rightarrow> map_of (in_flight_orders m) k) of
          None \<Rightarrow> m
        | Some tracked_order \<Rightarrow>
           (let execute_price = get_default (s_tradePrice order_update) 0;
                execute_amount_diff = get_default (s_tradeQuantity order_update) 0;
                m1 = (if order_state \<notin> set (map Some recognized_states)
                      then logger DEBUG ''Unrecognized order update response'' m else m);
                o2 = tracked_order\<lparr>last_state := order_state,
                                     fee_paid := get_default (s_tradeFee order_update) 0\<rparr>;
                m2 = write_back o2 m1;
                m3 = (if execute_amount_diff > 0 \<and> py_is (s_reportType order_update) ''trade''
                      then c_trigger_event
                             (OrderFilledEvent (current_timestamp m2) (client_order_id o2)
                                (trading_pair o2) (trade_type o2) (order_type o2)
                                execute_price execute_amount_diff
                                (c_get_fee (base_asset o2) (quote_asset o2) (order_type o2)
                                   (trade_type o2) execute_price execute_amount_diff)
                                (exchange_order_id o2))
                             (logger INFO ''Filled'' m2)
                      else m2)
            in if is_done o2 then
                 (if \<not> is_cancelled o2 then
                    c_stop_tracking_order (client_order_id o2)
                      (if trade_type o2 = BUY then
                         c_trigger_event
                           (BuyOrderCompletedEvent (current_timestamp m3) (client_order_id o2)
                              (base_asset o2) (quote_asset o2)
                              (case fee_asset o2 of Some a \<Rightarrow> a | None \<Rightarrow> base_asset o2)
                              (executed_amount_base o2) (executed_amount_quote o2) (fee_paid o2)
                              (order_type o2))
                           (logger INFO ''The market buy order has completed'' m3)
                       else
                         c_trigger_event
                           (SellOrderCompletedEvent (current_timestamp m3) (client_order_id o2)
                              (base_asset o2) (quote_asset o2)
                              (case fee_asset o2 of Some a \<Rightarrow> a | None \<Rightarrow> quote_asset o2)
                              (executed_amount_base o2) (executed_amount_quote o2) (fee_paid o2)
                              (order_type o2))
                           (logger INFO ''The market sell order has completed'' m3))
                  else
                    (let o3 = o2\<lparr>last_state := Some ''cancelled''\<rparr> in
                     c_stop_tracking_order (client_order_id o3)
                       (c_trigger_event
                          (OrderCancelledEvent (current_timestamp m3) (client_order_id o3))
                          (write_back o3 m3))))
               else m3))"


text \<open>The listener takes the messages of the stream one after the other.\<close>

definition user_stream_event_listener :: "stream_message list \<Rightarrow> market \<Rightarrow> market" where
  "user_stream_event_listener msgs m = fold on_user_stream_message msgs m"

section \<open>Reading the emitted events\<close>

text \<open>The events triggered between a state and a later one.\<close>

definition emitted :: "market \<Rightarrow> market \<Rightarrow> event list" where
  "emitted m m' = drop (length (events m)) (events m')"

text \<open>The amounts carried by the \<^verbatim>\<open>OrderFilledEvent\<close>s of a list of events, in order.\<close>

fun fill_amounts :: "event list \<Rightarrow> decimal list" where
  "fill_amounts [] = []"
| "fill_amounts (OrderFilledEvent ts oid pair tt ot p a fee eid # es) = a # fill_amounts es"
| "fill_amounts (e # es) = fill_amounts es"

text \<open>The successive differences of a sequence of cumulative amounts, from a base.\<close>

fun increments :: "decimal \<Rightarrow> decimal list \<Rightarrow> decimal list" where
  "increments b [] = []"
| "increments b (c # cs) = (c - b) # increments c cs"

definition terminal_states :: "string list" where
  "terminal_states = [''filled'', ''canceled'', ''expired'']"

section \<open>The request layer\<close>

text \<open>
  What the venue does with one request: an HTTP response with its status and its body
  (\<open>None\<close> when \<^verbatim>\<open>response.json()\<close> fails), or the exception with which the request,
  or the wait for it, ends (a transport error, or the cancellation of the waiting task).
\<close>

datatype http_reply = Http_response nat "json option" | Http_raises exn

text \<open>\<^verbatim>\<open>_api_request\<close>: the call is recorded, then the reply decides.\<close>

definition api_request :: "string \<Rightarrow> string \<Rightarrow> bool \<Rightarrow> http_reply \<Rightarrow> market \<Rightarrow> json outcome" where
  "api_request method path_url is_auth_required reply m =
    (let m0 = m\<lparr>requests := requests m @ [Request method path_url is_auth_required]\<rparr> in
     case reply of
       Http_raises e \<Rightarrow> (Inl e, m0)
     | Http_response status None \<Rightarrow> (Inl IOError, m0)
     | Http_response status (Some parsed_response) \<Rightarrow>
         if parsed_response = JNull then
           (Inl (HitBTCAPIError_init [(''error'', parsed_response)]),
            logger ERROR ''Error received'' m0)
         else if status \<noteq> 200 then
           (Inl (HitBTCAPIError_init [(''error'', parsed_response)]),
            logger ERROR ''Error fetching data'' m0)
         else (Inr parsed_response, m0))"

section \<open>Order submission\<close>

text \<open>
  What the connector takes from its base class \<^verbatim>\<open>MarketBase\<close> and from Python, neither
  part of the sources: the base class's \<^verbatim>\<open>c_quantize_order_amount\<close>,
  \<^verbatim>\<open>c_quantize_order_price\<close> and \<^verbatim>\<open>c_get_price\<close> (each may raise), the split of a
  trading pair into its assets, and \<^verbatim>\<open>str\<close> of a JSON value.
\<close>

record host =
  mb_quantize_order_amount :: "string \<Rightarrow> decimal \<Rightarrow> exn + decimal"
  mb_quantize_order_price :: "string \<Rightarrow> decimal \<Rightarrow> exn + decimal"
  mb_get_price :: "string \<Rightarrow> bool \<Rightarrow> exn + decimal"
  pair_assets :: "string \<Rightarrow> string \<times> string"
  py_str :: "json \<Rightarrow> string"

definition c_quantize_order_amount :: "host \<Rightarrow> string \<Rightarrow> decimal \<Rightarrow> market \<Rightarrow> exn + decimal" where
  "c_quantize_order_amount h pair amt m =
    (case map_of (trading_rules m) pair of
       None \<Rightarrow> Inl KeyError
     | Some trading_rule \<Rightarrow>
        (case mb_quantize_order_amount h pair amt of
           Inl e \<Rightarrow> Inl e
         | Inr quantized_amount \<Rightarrow>
            (case mb_get_price h pair False of
               Inl e \<Rightarrow> Inl e
             | Inr current_price \<Rightarrow>
                 if quantized_amount < min_order_size trading_rule then Inr 0
                 else if quantized_amount > max_order_size trading_rule
                 then Inr (max_order_size trading_rule)
                 else Inr quantized_amount)))"

text \<open>The expression for \<^verbatim>\<open>decimal_price\<close> in \<^verbatim>\<open>execute_buy\<close> and \<^verbatim>\<open>execute_sell\<close>.\<close>

definition quantized_price :: "host \<Rightarrow> order_type \<Rightarrow> string \<Rightarrow> decimal \<Rightarrow> exn + decimal" where
  "quantized_price h ot symbol p =
     (if ot = LIMIT then mb_quantize_order_price h symbol p else Inr 0)"

text \<open>
  \<^verbatim>\<open>res["id"]\<close>: the value under the key of a dict, \<^verbatim>\<open>KeyError\<close> without the key,
  \<^verbatim>\<open>TypeError\<close> for a value that is no dict.
\<close>

fun py_item :: "json \<Rightarrow> string \<Rightarrow> exn + json" where
  "py_item (JObj kvs) k = (case map_of kvs k of None \<Rightarrow> Inl KeyError | Some v \<Rightarrow> Inr v)"
| "py_item _ k = Inl TypeError"

definition place_order ::
  "host \<Rightarrow> string \<Rightarrow> string \<Rightarrow> decimal \<Rightarrow> bool \<Rightarrow> order_type \<Rightarrow> decimal \<Rightarrow> http_reply \<Rightarrow> market
     \<Rightarrow> string outcome" where
  "place_order h order_id symbol amt is_buy ot p reply m =
    (case api_request ''PUT'' (''/api/2/order/'' @ order_id) True reply m of
       (Inl e, m1) \<Rightarrow> (Inl e, m1)
     | (Inr res, m1) \<Rightarrow>
        (case py_item res ''id'' of
           Inl e \<Rightarrow> (Inl e, m1)
         | Inr v \<Rightarrow> (Inr (py_str h v), m1)))"

text \<open>
  \<^verbatim>\<open>execute_buy\<close> and \<^verbatim>\<open>execute_sell\<close> differ in the side only; \<open>execute_order\<close> is
  their common body. \<^verbatim>\<open>self.quantize_order_amount\<close> is the Python entry to
  \<^verbatim>\<open>c_quantize_order_amount\<close>. The handler \<^verbatim>\<open>except asyncio.CancelledError: raise\<close> comes first;
  \<^verbatim>\<open>except Exception\<close> takes every other exception of the model.
\<close>

definition execute_order ::
  "trade_type \<Rightarrow> host \<Rightarrow> string \<Rightarrow> string \<Rightarrow> decimal \<Rightarrow> order_type \<Rightarrow> decimal \<Rightarrow> http_reply
     \<Rightarrow> market \<Rightarrow> unit outcome" where
  "execute_order side h order_id symbol amt ot p reply m =
    (case map_of (trading_rules m) symbol of
       None \<Rightarrow> (Inl KeyError, m)
     | Some trading_rule \<Rightarrow>
     (case c_quantize_order_amount h symbol amt m of
       Inl e \<Rightarrow> (Inl e, m)
     | Inr decimal_amount \<Rightarrow>
     (case quantized_price h ot symbol p of
       Inl e \<Rightarrow> (Inl e, m)
     | Inr decimal_price \<Rightarrow>
       if decimal_amount < min_order_size trading_rule then (Inl ValueError, m)
       else
        (case place_order h order_id symbol decimal_amount (side = BUY) ot decimal_price reply m of
           (Inr exchange_id, m1) \<Rightarrow>
             (let m2 = c_start_tracking_order (pair_assets h) order_id exchange_id symbol
                         ot side decimal_price decimal_amount m1;
                  tracked_order = map_of (in_flight_orders m2) order_id;
                  m3 = (if tracked_order \<noteq> None then logger INFO ''Created order'' m2 else m2)
              in (Inr (),
                  c_trigger_event
                    (if side = BUY
                     then BuyOrderCreatedEvent (current_timestamp m3) ot symbol
                            decimal_amount decimal_price order_id
                     else SellOrderCreatedEvent (current_timestamp m3) ot symbol
                            decimal_amount decimal_price order_id)
                    m3))
         | (Inl CancelledError, m1) \<Rightarrow> (Inl CancelledError, m1)
         | (Inl e, m1) \<Rightarrow>
             (let m2 = c_stop_tracking_order order_id m1;
                  m3 = logger NETWORK ''Error submitting order to HitBTC'' m2
              in (Inr (),
                  c_trigger_event
                    (MarketOrderFailureEvent (current_timestamp m3) order_id ot) m3))))))"

definition execute_buy ::
  "host \<Rightarrow> string \<Rightarrow> string \<Rightarrow> decimal \<Rightarrow> order_type \<Rightarrow> decimal \<Rightarrow> http_reply \<Rightarrow> market
     \<Rightarrow> unit outcome" where
  "execute_buy = execute_order BUY"

definition execute_sell ::
  "host \<Rightarrow> string \<Rightarrow> string \<Rightarrow> decimal \<Rightarrow> order_type \<Rightarrow> decimal \<Rightarrow> http_reply \<Rightarrow> market
     \<Rightarrow> unit outcome" where
  "execute_sell = execute_order SELL"

subsection \<open>Client order ids\<close>

text \<open>Python's \<^verbatim>\<open>str\<close> of an integer, as the f-string formats the nonce.\<close>

definition digit_char :: "nat \<Rightarrow> char" where
  "digit_char d = char_of (48 + d)"

function str_nat :: "nat \<Rightarrow> string" where
  "str_nat n = (if n < 10 then [digit_char n] else str_nat (n div 10) @ [digit_char (n mod 10)])"
  by pat_completeness auto
termination
  by (relation "measure id") auto

declare str_nat.simps [simp del]

definition str_int :: "int \<Rightarrow> string" where
  "str_int i = (if i < 0 then CHR ''-'' # str_nat (nat (- i)) else str_nat (nat i))"

text \<open>
  \<^verbatim>\<open><int64_t>(time.time() * 1e6)\<close>: the argument is the value of the product, a double;
  the cast drops the fraction and keeps 64 bits.
\<close>

definition tracking_nonce :: "rat \<Rightarrow> 64 word" where
  "tracking_nonce t = word_of_int (if t < 0 then \<lceil>t\<rceil> else \<lfloor>t\<rfloor>)"

text \<open>
  The order ids of \<^verbatim>\<open>c_buy\<close> and \<^verbatim>\<open>c_sell\<close>, for a call at which
  \<^verbatim>\<open>time.time() * 1e6\<close> is \<open>t\<close>.
\<close>

definition c_buy :: "rat \<Rightarrow> string \<Rightarrow> string" where
  "c_buy t pair = ''buy-'' @ pair @ ''-'' @ str_int (sint (tracking_nonce t))"

definition c_sell :: "rat \<Rightarrow> string \<Rightarrow> string" where
  "c_sell t pair = ''sell-'' @ pair @ ''-'' @ str_int (sint (tracking_nonce t))"

section \<open>Cancellation\<close>

text \<open>\<^verbatim>\<open>x is "lit"\<close> for a JSON value.\<close>

definition json_is :: "json \<Rightarrow> string \<Rightarrow> bool" where
  "json_is x lit = (case x of JStr s \<Rightarrow> py_is (Some s) lit | _ \<Rightarrow> False)"

text \<open>
  \<^verbatim>\<open>execute_cancel\<close>; the result is the value returned, \<open>None\<close> where the function ends
  without a \<^verbatim>\<open>return\<close>. \<^verbatim>\<open>except Exception\<close> takes every exception of the model but
  the cancellation of the task; an exception raised inside a handler leaves the function.
  The assignments to \<^verbatim>\<open>tracked_order.last_state\<close> come after the order has left the
  registry, and change no registered object.
\<close>

definition execute_cancel ::
  "string \<Rightarrow> string \<Rightarrow> http_reply \<Rightarrow> market \<Rightarrow> string option outcome" where
  "execute_cancel pair order_id reply m =
    (case map_of (in_flight_orders m) order_id of
       None \<Rightarrow> (Inr None, logger NETWORK ''Failed to cancel order'' m)
     | Some tracked_order \<Rightarrow>
        (case api_request ''DELETE'' (''/api/2/order/'' @ order_id) True reply m of
           (Inr response, m1) \<Rightarrow>
             (case py_get response ''status'' of
                Inl e \<Rightarrow> (Inr None, logger NETWORK ''Failed to cancel order'' m1)
              | Inr st \<Rightarrow>
                  if json_is st ''canceled'' then
                    (Inr (Some order_id),
                     c_trigger_event (OrderCancelledEvent (current_timestamp m1) order_id)
                       (c_stop_tracking_order order_id m1))
                  else (Inr (Some order_id), m1))
         | (Inl (HitBTCAPIError error_payload), m1) \<Rightarrow>
             (case py_contains ''20002'' error_payload of
                Inl e \<Rightarrow> (Inl e, m1)
              | Inr found \<Rightarrow>
                  if found then
                    (Inr (Some order_id),
                     c_trigger_event (OrderCancelledEvent (current_timestamp m1) order_id)
                       (c_stop_tracking_order order_id
                          (logger INFO ''The order does not exist on HitBTC. No cancellation needed.''
                             m1)))
                  else (Inr (Some order_id), m1))
         | (Inl CancelledError, m1) \<Rightarrow> (Inl CancelledError, m1)
         | (Inl e, m1) \<Rightarrow> (Inr None, logger NETWORK ''Failed to cancel order'' m1)))"

datatype cancellation_result = CancellationResult string bool

text \<open>
  The tasks of \<^verbatim>\<open>cancel_all\<close>, run one after the other in the order of the gather. The
  venue's reply to the cancel request of an order is \<open>None\<close> when it does not come within
  \<^verbatim>\<open>timeout_seconds\<close>: the timeout then cancels the task at the request it waits for.
\<close>

fun run_cancel_tasks ::
  "in_flight_order list \<Rightarrow> (string \<Rightarrow> http_reply option) \<Rightarrow> market
     \<Rightarrow> (exn + string option) list \<times> market" where
  "run_cancel_tasks [] replies m = ([], m)"
| "run_cancel_tasks (ord # rest) replies m =
     (let (r, m1) = execute_cancel (trading_pair ord) (client_order_id ord)
                      (case replies (client_order_id ord) of
                         None \<Rightarrow> Http_raises CancelledError
                       | Some reply \<Rightarrow> reply) m;
          (rs, m2) = run_cancel_tasks rest replies m1
      in (r # rs, m2))"

text \<open>The loop over the results of the gather (\<^verbatim>\<open>return_exceptions=True\<close>).\<close>

fun collect_cancellations ::
  "(exn + string option) list \<Rightarrow> string list \<Rightarrow> cancellation_result list \<Rightarrow> market
     \<Rightarrow> string list \<times> cancellation_result list \<times> market" where
  "collect_cancellations [] cancel_order_ids cancellation_results m =
     (cancel_order_ids, cancellation_results, m)"
| "collect_cancellations (Inr (Some cid) # rs) cancel_order_ids cancellation_results m =
     collect_cancellations rs (remove1 cid cancel_order_ids)
       (cancellation_results @ [CancellationResult cid True]) m"
| "collect_cancellations (r # rs) cancel_order_ids cancellation_results m =
     collect_cancellations rs cancel_order_ids cancellation_results
       (logger WARNING ''Failed to cancel all orders'' m)"

text \<open>
  \<^verbatim>\<open>cancel_all\<close>. The timeout strikes when the reply to some request that was made does
  not come in time; the results of the gather are then lost and the handler logs.
\<close>

definition cancel_all ::
  "(string \<Rightarrow> http_reply option) \<Rightarrow> market \<Rightarrow> cancellation_result list \<times> market" where
  "cancel_all replies m =
    (let open_orders = filter is_open (map snd (in_flight_orders m)) in
     if length open_orders = 0 then ([], m)
     else
      (let cancel_order_ids = map client_order_id open_orders;
           m0 = logger DEBUG ''cancel_order_id'' m;
           timed_out = list_ex (\<lambda>ord. replies (client_order_id ord) = None \<and>
                          map_of (in_flight_orders m) (client_order_id ord) \<noteq> None) open_orders;
           (results, m1) = run_cancel_tasks open_orders replies m0;
           (remaining, cancellation_results, m2) =
             (if timed_out
              then (cancel_order_ids, [], logger NETWORK ''Failed to cancel all orders.'' m1)
              else collect_cancellations results cancel_order_ids [] m1)
       in (cancellation_results @ map (\<lambda>oid. CancellationResult oid False) remaining, m2)))"

section \<open>Example states\<close>

definition example_order :: in_flight_order where
  "example_order =
     HitBTCInFlightOrder_init ''buy-ETHUSD-1577836800000000'' ''4345697765'' ''ETHUSD''
       LIMIT BUY 100 1 (''ETH'', ''USD'')"

definition example_rule :: trading_rule where
  "example_rule =
     \<lparr> min_order_size = 1 / 1000, max_order_size = 10 ^ 56, min_price_increment = 1 / 100,
       min_base_amount_increment = 1 / 1000, min_quote_amount_increment = 1 / 100 \<rparr>"

definition example_market :: market where
  "example_market =
     \<lparr> in_flight_orders = [(''buy-ETHUSD-1577836800000000'', example_order)],
       trading_rules = [(''ETHUSD'', example_rule)],
       current_timestamp = 1577836810, last_poll_timestamp = 1577836800,
       events = [], logs = [], requests = [] \<rparr>"

definition partial_update :: order_update where
  "partial_update = \<lparr> u_status = ''partiallyFilled'', u_cumQuantity = 4 / 10, u_price = 100 \<rparr>"

definition filled_update :: order_update where
  "filled_update = \<lparr> u_status = ''filled'', u_cumQuantity = 1, u_price = 101 \<rparr>"

definition overfill_update :: order_update where
  "overfill_update = \<lparr> u_status = ''partiallyFilled'', u_cumQuantity = 2, u_price = 100 \<rparr>"

definition unknown_update :: order_update where
  "unknown_update = \<lparr> u_status = ''pendingCancel'', u_cumQuantity = 4 / 10, u_price = 100 \<rparr>"

definition trade_report :: stream_message where
  "trade_report =
     \<lparr> s_status = Some ''partiallyFilled'',
       s_clientOrderId = Some ''buy-ETHUSD-1577836800000000'',
       s_tradePrice = Some 100, s_tradeQuantity = Some (4 / 10),
       s_tradeFee = Some (28 / 1000), s_reportType = Some (PyStr ''trade'' True) \<rparr>"


definition unknown_report :: stream_message where
  "unknown_report =
     \<lparr> s_status = Some ''pendingCancel'',
       s_clientOrderId = Some ''buy-ETHUSD-1577836800000000'',
       s_tradePrice = None, s_tradeQuantity = None,
       s_tradeFee = None, s_reportType = Some (PyStr ''status'' False) \<rparr>"

definition example_host :: host where
  "example_host =
     \<lparr> mb_quantize_order_amount = (\<lambda>pair a. Inr (of_int \<lfloor>a * 1000\<rfloor> / 1000)),
       mb_quantize_order_price = (\<lambda>pair p. Inr (of_int \<lfloor>p * 100\<rfloor> / 100)),
       mb_get_price = (\<lambda>pair is_buy. Inr 100),
       pair_assets = (\<lambda>pair. (''ETH'', ''USD'')),
       py_str = (\<lambda>v. case v of JStr s \<Rightarrow> chars s | JNum n \<Rightarrow> str_int \<lfloor>n\<rfloor> | _ \<Rightarrow> []) \<rparr>"

definition order_not_found_reply :: http_reply where
  "order_not_found_reply =
     Http_response 400
       (Some (JObj [(''error'',
          JObj [(''code'', JNum 20002),
                (''message'', JStr (PyStr ''Order not found'' False)),
                (''description'', JStr (PyStr [] False))])]))"

definition server_error_reply :: http_reply where
  "server_error_reply =
     Http_response 500
       (Some (JObj [(''error'',
          JObj [(''code'', JNum 500),
                (''message'', JStr (PyStr ''Internal Server Error'' False))])]))"

definition order_accepted_reply :: http_reply where
  "order_accepted_reply =
     Http_response 200
       (Some (JObj [(''id'', JNum 4345697766),
                    (''clientOrderId'', JStr (PyStr ''sell-ETHUSD-1577836800000001'' False)),
                    (''status'', JStr (PyStr ''new'' False))]))"

section \<open>Basic facts about the state\<close>

lemma fill_amounts_append: "fill_amounts (xs @ ys) = fill_amounts xs @ fill_amounts ys"
  by (induction xs rule: fill_amounts.induct) simp_all

lemma events_write_back [simp]: "events (write_back ord m) = events m"
  by (simp add: write_back_def)

lemma events_logger [simp]: "events (logger l s m) = events m"
  by (simp add: logger_def)

lemma events_stop [simp]: "events (c_stop_tracking_order k m) = events m"
  by (simp add: c_stop_tracking_order_def)

lemma events_trigger [simp]: "events (c_trigger_event e m) = events m @ [e]"
  by (simp add: c_trigger_event_def)

lemma logs_write_back [simp]: "logs (write_back ord m) = logs m"
  by (simp add: write_back_def)

lemma logs_logger [simp]: "logs (logger l s m) = logs m @ [(l, s)]"
  by (simp add: logger_def)

lemma logs_stop [simp]: "logs (c_stop_tracking_order k m) = logs m"
  by (simp add: c_stop_tracking_order_def)

lemma logs_trigger [simp]: "logs (c_trigger_event e m) = logs m"
  by (simp add: c_trigger_event_def)

lemma timestamp_write_back [simp]: "current_timestamp (write_back ord m) = current_timestamp m"
  by (simp add: write_back_def)

lemma timestamp_logger [simp]: "current_timestamp (logger l s m) = current_timestamp m"
  by (simp add: logger_def)

lemma timestamp_stop [simp]: "current_timestamp (c_stop_tracking_order k m) = current_timestamp m"
  by (simp add: c_stop_tracking_order_def)

lemma timestamp_trigger [simp]: "current_timestamp (c_trigger_event e m) = current_timestamp m"
  by (simp add: c_trigger_event_def)

lemma registry_logger [simp]: "in_flight_orders (logger l s m) = in_flight_orders m"
  by (simp add: logger_def)

lemma registry_trigger [simp]: "in_flight_orders (c_trigger_event e m) = in_flight_orders m"
  by (simp add: c_trigger_event_def)

lemma map_of_replace:
  "map_of xs k = Some v \<Longrightarrow>
   map_of (map (\<lambda>(k', v'). if k' = k then (k', w) else (k', v')) xs) k = Some w"
  by (induction xs) (auto split: if_splits)

lemma lookup_write_back:
  "map_of (in_flight_orders m) k = Some v \<Longrightarrow> client_order_id ord = k \<Longrightarrow>
   map_of (in_flight_orders (write_back ord m)) k = Some ord"
  unfolding write_back_def by (simp add: map_of_replace)

lemma lookup_stop: "map_of (in_flight_orders (c_stop_tracking_order k m)) k = None"
  by (simp add: c_stop_tracking_order_def map_of_eq_None_iff AList.delete_notin_dom)

lemma emitted_append: "events m' = events m @ evs \<Longrightarrow> emitted m m' = evs"
  by (simp add: emitted_def)

section \<open>One status update\<close>

text \<open>The order as a status update leaves it.\<close>

lemma process_events:
  "\<exists>evs. events (process_order_update ord u m) = events m @ evs \<and>
     fill_amounts evs =
       (if u_cumQuantity u - executed_amount_base ord > 0
        then [u_cumQuantity u - executed_amount_base ord] else [])"
  unfolding process_order_update_def Let_def
  by (simp add: fill_amounts_append split: prod.splits)

lemma process_tracked:
  assumes "map_of (in_flight_orders m) k = Some ord" and "client_order_id ord = k"
    and "u_status u \<notin> set terminal_states"
  shows "map_of (in_flight_orders (process_order_update ord u m)) k =
           Some (if u_cumQuantity u - executed_amount_base ord > 0
                 then ord\<lparr>last_state := Some (u_status u),
                          executed_amount_base := u_cumQuantity u,
                          executed_amount_quote := u_price u * u_cumQuantity u,
                          fee_paid := u_price u * u_cumQuantity u * (7 / 10000)\<rparr>
                 else ord\<lparr>last_state := Some (u_status u)\<rparr>)"
  using assms unfolding process_order_update_def Let_def
  by (auto simp: lookup_write_back is_open_def is_done_def terminal_states_def c_get_fee_def
      split: prod.splits)


section \<open>A sequence of status updates\<close>

lemma sum_list_increments: "sum_list (increments b cs) = last (b # cs) - b"
  by (induction cs arbitrary: b) simp_all

lemma increments_nonneg: "sorted (b # cs) \<Longrightarrow> list_all (\<lambda>d. 0 \<le> d) (increments b cs)"
  by (induction cs arbitrary: b) simp_all

lemma sum_list_filter_pos:
  "list_all (\<lambda>d. 0 \<le> d) (ds :: rat list) \<Longrightarrow> sum_list (filter (\<lambda>d. 0 < d) ds) = sum_list ds"
  by (induction ds) auto

lemma poll_sequence_events:
  assumes "map_of (in_flight_orders m) k = Some ord" and "client_order_id ord = k"
    and "sorted (executed_amount_base ord # map u_cumQuantity us)"
    and "list_all (\<lambda>u. u_status u \<notin> set terminal_states) (butlast us)"
  shows "\<exists>evs. events (poll_sequence k us m) = events m @ evs \<and>
           fill_amounts evs =
             filter (\<lambda>d. 0 < d) (increments (executed_amount_base ord) (map u_cumQuantity us))"
  using assms
proof (induction us arbitrary: m ord)
  case Nil
  then show ?case by simp
next
  case (Cons u us)
  let ?m1 = "process_order_update ord u m"
  obtain e1 where e1: "events ?m1 = events m @ e1"
    and f1: "fill_amounts e1 =
       (if u_cumQuantity u - executed_amount_base ord > 0
        then [u_cumQuantity u - executed_amount_base ord] else [])"
    using process_events by blast
  have step: "poll_sequence k (u # us) m = poll_sequence k us ?m1"
    using Cons.prems(1) by simp
  show ?case
  proof (cases us)
    case Nil
    then show ?thesis using step e1 f1 by simp
  next
    case (Cons u' us')
    then have live: "u_status u \<notin> set terminal_states"
      using Cons.prems(4) by simp
    have le: "executed_amount_base ord \<le> u_cumQuantity u"
      using Cons.prems(3) by simp
    define ord' where "ord' = the (map_of (in_flight_orders ?m1) k)"
    have t: "map_of (in_flight_orders ?m1) k = Some ord'"
      unfolding ord'_def using process_tracked [OF Cons.prems(1) Cons.prems(2) live] by simp
    have c: "client_order_id ord' = k"
      unfolding ord'_def using process_tracked [OF Cons.prems(1) Cons.prems(2) live] Cons.prems(2)
      by simp
    have b: "executed_amount_base ord' = u_cumQuantity u"
      unfolding ord'_def using process_tracked [OF Cons.prems(1) Cons.prems(2) live] le
      by simp
    have s: "sorted (executed_amount_base ord' # map u_cumQuantity us)"
      using Cons.prems(3) b by simp
    have o: "list_all (\<lambda>u. u_status u \<notin> set terminal_states) (butlast us)"
      using Cons.prems(4) Cons by simp
    obtain e2 where e2: "events (poll_sequence k us ?m1) = events ?m1 @ e2"
      and f2: "fill_amounts e2 =
        filter (\<lambda>d. 0 < d) (increments (executed_amount_base ord') (map u_cumQuantity us))"
      using Cons.IH [OF t c s o] by blast
    have "events (poll_sequence k (u # us) m) = events m @ (e1 @ e2)"
      using step e1 e2 by simp
    moreover have "fill_amounts (e1 @ e2) =
        filter (\<lambda>d. 0 < d)
          (increments (executed_amount_base ord) (map u_cumQuantity (u # us)))"
      using f1 f2 b by (simp add: fill_amounts_append)
    ultimately show ?thesis by blast
  qed
qed

text \<open>
  Claim C1. For a tracked order and a sequence of status-poll updates whose cumulative
  executed amount does not decrease from the amount the order has stored, each applied
  while the order is tracked: every update with a positive difference to the stored amount
  emits one fill event carrying the difference, an update with no difference emits none,
  and the stored amount plus the sum of the emitted fill amounts is the last reported
  cumulative amount. A newly tracked order has nothing stored, so its fills sum to the
  last reported cumulative amount.
\<close>

theorem poll_fills_sum_to_final:
  assumes "map_of (in_flight_orders m) k = Some ord" and "client_order_id ord = k"
    and "us \<noteq> []"
    and "sorted (executed_amount_base ord # map u_cumQuantity us)"
    and "list_all (\<lambda>u. u_status u \<notin> set terminal_states) (butlast us)"
  shows "fill_amounts (emitted m (poll_sequence k us m)) =
           filter (\<lambda>d. 0 < d) (increments (executed_amount_base ord) (map u_cumQuantity us)) \<and>
         executed_amount_base ord + sum_list (fill_amounts (emitted m (poll_sequence k us m))) =
           u_cumQuantity (last us) \<and>
         (executed_amount_base ord = 0 \<longrightarrow>
            sum_list (fill_amounts (emitted m (poll_sequence k us m))) = u_cumQuantity (last us))"
proof -
  obtain evs where e: "events (poll_sequence k us m) = events m @ evs"
    and f: "fill_amounts evs =
      filter (\<lambda>d. 0 < d) (increments (executed_amount_base ord) (map u_cumQuantity us))"
    using poll_sequence_events [OF assms(1,2,4,5)] by blast
  have em: "emitted m (poll_sequence k us m) = evs"
    using e by (rule emitted_append)
  have "sum_list (fill_amounts evs) =
      sum_list (increments (executed_amount_base ord) (map u_cumQuantity us))"
    using f sum_list_filter_pos [OF increments_nonneg [OF assms(4)]] by simp
  also have "\<dots> = last (executed_amount_base ord # map u_cumQuantity us) - executed_amount_base ord"
    by (rule sum_list_increments)
  also have "\<dots> = u_cumQuantity (last us) - executed_amount_base ord"
    using assms(3) by (simp add: last_map)
  finally have total:
    "executed_amount_base ord + sum_list (fill_amounts evs) = u_cumQuantity (last us)"
    by simp
  then have fresh:
    "executed_amount_base ord = 0 \<longrightarrow> sum_list (fill_amounts evs) = u_cumQuantity (last us)"
    by simp
  show ?thesis
    unfolding em using f total fresh by (intro conjI)
qed

theorem poll_fills_sum_to_final_witness:
  "executed_amount_base example_order = 0 \<and>
   fill_amounts (emitted example_market
      (poll_sequence ''buy-ETHUSD-1577836800000000'' [partial_update, filled_update] example_market))
     = [4 / 10, 6 / 10] \<and>
   sum_list (fill_amounts (emitted example_market
      (poll_sequence ''buy-ETHUSD-1577836800000000'' [partial_update, filled_update] example_market)))
     = u_cumQuantity filled_update"
  using poll_fills_sum_to_final [of example_market "''buy-ETHUSD-1577836800000000''" example_order
      "[partial_update, filled_update]"]
  by (simp add: example_market_def example_order_def HitBTCInFlightOrder_init_def
      partial_update_def filled_update_def terminal_states_def)

section \<open>One message of the user stream\<close>


lemma stream_tracked:
  assumes "s_clientOrderId msg = Some k" and "map_of (in_flight_orders m) k = Some ord"
    and "client_order_id ord = k" and "s_status msg \<notin> set (map Some terminal_states)"
  shows "map_of (in_flight_orders (on_user_stream_message msg m)) k =
           Some (ord\<lparr>last_state := s_status msg, fee_paid := get_default (s_tradeFee msg) 0\<rparr>)"
  using assms unfolding on_user_stream_message_def Let_def
  by (auto simp: lookup_write_back is_done_def terminal_states_def)

section \<open>Replayed updates\<close>


lemma example_lookup:
  "map_of (in_flight_orders example_market) ''buy-ETHUSD-1577836800000000'' = Some example_order"
  by (simp add: example_market_def)

lemma example_key: "client_order_id example_order = ''buy-ETHUSD-1577836800000000''"
  by (simp add: example_order_def HitBTCInFlightOrder_init_def)



section \<open>The stored executed amount\<close>

text \<open>
  Claim C3, as amended. For a tracked order, a status-poll update that leaves the order
  tracked stores, as cumulative executed base amount, the larger of the amount stored before
  and the reported cumulative quantity, whatever the requested amount: the stored amount
  never decreases, and a reported quantity above the requested amount is stored as
  reported. A message of the user stream leaves the stored amount as it is.
\<close>

theorem executed_base_after_update:
  assumes "map_of (in_flight_orders m) k = Some ord" and "client_order_id ord = k"
  shows "(u_status u \<notin> set terminal_states \<longrightarrow>
           (\<exists>ord'. map_of (in_flight_orders (process_order_update ord u m)) k = Some ord' \<and>
              amount ord' = amount ord \<and>
              executed_amount_base ord' = max (executed_amount_base ord) (u_cumQuantity u))) \<and>
         (s_clientOrderId msg = Some k \<and> s_status msg \<notin> set (map Some terminal_states) \<longrightarrow>
           (\<exists>ord'. map_of (in_flight_orders (on_user_stream_message msg m)) k = Some ord' \<and>
              amount ord' = amount ord \<and>
              executed_amount_base ord' = executed_amount_base ord))"
proof (intro conjI impI)
  assume "u_status u \<notin> set terminal_states"
  from process_tracked [OF assms this]
  show "\<exists>ord'. map_of (in_flight_orders (process_order_update ord u m)) k = Some ord' \<and>
      amount ord' = amount ord \<and>
      executed_amount_base ord' = max (executed_amount_base ord) (u_cumQuantity u)"
    by (cases "u_cumQuantity u - executed_amount_base ord > 0") simp_all
next
  assume "s_clientOrderId msg = Some k \<and> s_status msg \<notin> set (map Some terminal_states)"
  then have "map_of (in_flight_orders (on_user_stream_message msg m)) k =
      Some (ord\<lparr>last_state := s_status msg, fee_paid := get_default (s_tradeFee msg) 0\<rparr>)"
    using stream_tracked [OF _ assms] by simp
  then show "\<exists>ord'. map_of (in_flight_orders (on_user_stream_message msg m)) k = Some ord' \<and>
      amount ord' = amount ord \<and> executed_amount_base ord' = executed_amount_base ord"
    by simp
qed

theorem executed_base_after_update_witness:
  "(\<exists>ord'. map_of (in_flight_orders
        (process_order_update example_order overfill_update example_market))
        ''buy-ETHUSD-1577836800000000'' = Some ord' \<and>
      amount ord' = 1 \<and> executed_amount_base ord' = 2) \<and>
   (\<exists>ord'. map_of (in_flight_orders (on_user_stream_message trade_report example_market))
        ''buy-ETHUSD-1577836800000000'' = Some ord' \<and>
      amount ord' = 1 \<and> executed_amount_base ord' = 0)"
  using executed_base_after_update [OF example_lookup example_key, of overfill_update trade_report]
  by (simp add: overfill_update_def trade_report_def terminal_states_def example_order_def
      HitBTCInFlightOrder_init_def)

text \<open>
  The claim as stated fails: a poll that reports a cumulative quantity of 2 for an order of
  amount 1 leaves the order registered with an executed amount of 2.
\<close>

theorem overfill_counterexample:
  "map (\<lambda>(k, ord). (k, amount ord, executed_amount_base ord))
     (in_flight_orders
        (snd (update_order_status (\<lambda>oid. Status_rows [Some overfill_update]) example_market)))
   = [(''buy-ETHUSD-1577836800000000'', 1, 2)]"
  by (simp add: update_order_status_def tick_of_def UPDATE_ORDERS_INTERVAL_def Let_def
      poll_tracked_order_def process_order_update_def example_market_def example_order_def
      HitBTCInFlightOrder_init_def overfill_update_def recognized_states_def is_open_def
      write_back_def logger_def c_trigger_event_def c_get_fee_def)

section \<open>Unrecognized states\<close>

lemma unrecognized_not_terminal:
  "s \<notin> set recognized_states \<Longrightarrow> s \<notin> set terminal_states"
  by (auto simp: recognized_states_def terminal_states_def)

lemma process_open_effects:
  assumes "u_status u \<notin> set terminal_states"
  shows "emitted m (process_order_update ord u m) =
           (if u_cumQuantity u - executed_amount_base ord > 0
            then [OrderFilledEvent (current_timestamp m) (client_order_id ord) (trading_pair ord)
                    (trade_type ord) (order_type ord) (u_price u)
                    (u_cumQuantity u - executed_amount_base ord) (TradeFee (7 / 10000))
                    (exchange_order_id ord)]
            else [])"
    and "logs (process_order_update ord u m) =
           logs m @
           (if u_status u \<notin> set recognized_states
            then [(DEBUG, ''Unrecognized order update response'')] else []) @
           (if u_cumQuantity u - executed_amount_base ord > 0 then [(INFO, ''Filled'')] else [])"
  using assms unfolding process_order_update_def Let_def emitted_def
  by (simp_all add: is_open_def is_done_def terminal_states_def c_get_fee_def)

lemma stream_open_events:
  assumes "s_clientOrderId msg = Some k" and "map_of (in_flight_orders m) k = Some ord"
    and "s_status msg \<notin> set (map Some terminal_states)"
  shows "emitted m (on_user_stream_message msg m) = [] \<or>
         emitted m (on_user_stream_message msg m) =
           [OrderFilledEvent (current_timestamp m) (client_order_id ord) (trading_pair ord)
              (trade_type ord) (order_type ord) (get_default (s_tradePrice msg) 0)
              (get_default (s_tradeQuantity msg) 0) (TradeFee (7 / 10000))
              (exchange_order_id ord)]"
  using assms unfolding on_user_stream_message_def Let_def emitted_def
  by (simp add: is_done_def terminal_states_def c_get_fee_def)

text \<open>
  Claim C4, as amended. A status-poll update with a raw status outside the recognized
  states logs the condition and goes on with the update: the fill is computed and emitted
  as for any other update. The raw status overwrites the last known state of the order.
  The order stays tracked and no completion or cancellation event is emitted. On the user
  stream, a message with such a status (or with none) is logged, overwrites the last known
  state as well, and leaves the order tracked; it emits no event but, at most, the one fill
  event of the message.
\<close>

theorem unrecognized_state_update:
  assumes "map_of (in_flight_orders m) k = Some ord" and "client_order_id ord = k"
  shows "(u_status u \<notin> set recognized_states \<longrightarrow>
      logs (process_order_update ord u m) =
        logs m @ (DEBUG, ''Unrecognized order update response'') #
          (if u_cumQuantity u - executed_amount_base ord > 0 then [(INFO, ''Filled'')] else []) \<and>
      (\<exists>ord'. map_of (in_flight_orders (process_order_update ord u m)) k = Some ord' \<and>
         last_state ord' = Some (u_status u) \<and>
         executed_amount_base ord' = max (executed_amount_base ord) (u_cumQuantity u)) \<and>
      emitted m (process_order_update ord u m) =
        (if u_cumQuantity u - executed_amount_base ord > 0
         then [OrderFilledEvent (current_timestamp m) k (trading_pair ord)
                 (trade_type ord) (order_type ord) (u_price u)
                 (u_cumQuantity u - executed_amount_base ord) (TradeFee (7 / 10000))
                 (exchange_order_id ord)]
         else [])) \<and>
    (s_clientOrderId msg = Some k \<and> s_status msg \<notin> set (map Some recognized_states) \<longrightarrow>
      (DEBUG, ''Unrecognized order update response'') \<in> set (logs (on_user_stream_message msg m)) \<and>
      (\<exists>ord'. map_of (in_flight_orders (on_user_stream_message msg m)) k = Some ord' \<and>
         last_state ord' = s_status msg) \<and>
      (emitted m (on_user_stream_message msg m) = [] \<or>
       emitted m (on_user_stream_message msg m) =
         [OrderFilledEvent (current_timestamp m) k (trading_pair ord)
            (trade_type ord) (order_type ord) (get_default (s_tradePrice msg) 0)
            (get_default (s_tradeQuantity msg) 0) (TradeFee (7 / 10000))
            (exchange_order_id ord)]))"
proof (intro conjI impI)
  assume u: "u_status u \<notin> set recognized_states"
  then have live: "u_status u \<notin> set terminal_states"
    by (rule unrecognized_not_terminal)
  show "logs (process_order_update ord u m) =
        logs m @ (DEBUG, ''Unrecognized order update response'') #
          (if u_cumQuantity u - executed_amount_base ord > 0 then [(INFO, ''Filled'')] else [])"
    using process_open_effects(2) [OF live, of ord m] u by simp
  show "\<exists>ord'. map_of (in_flight_orders (process_order_update ord u m)) k = Some ord' \<and>
         last_state ord' = Some (u_status u) \<and>
         executed_amount_base ord' = max (executed_amount_base ord) (u_cumQuantity u)"
    using process_tracked [OF assms live]
    by (cases "u_cumQuantity u - executed_amount_base ord > 0") simp_all
  show "emitted m (process_order_update ord u m) =
        (if u_cumQuantity u - executed_amount_base ord > 0
         then [OrderFilledEvent (current_timestamp m) k (trading_pair ord)
                 (trade_type ord) (order_type ord) (u_price u)
                 (u_cumQuantity u - executed_amount_base ord) (TradeFee (7 / 10000))
                 (exchange_order_id ord)]
         else [])"
    using process_open_effects(1) [OF live, of m ord] assms(2) by simp
next
  assume a: "s_clientOrderId msg = Some k \<and> s_status msg \<notin> set (map Some recognized_states)"
  then have id: "s_clientOrderId msg = Some k"
    and u: "s_status msg \<notin> set (map Some recognized_states)"
    by simp_all
  have live: "s_status msg \<notin> set (map Some terminal_states)"
    using u by (auto simp: recognized_states_def terminal_states_def)
  show "(DEBUG, ''Unrecognized order update response'') \<in> set (logs (on_user_stream_message msg m))"
    using id assms(1) u live unfolding on_user_stream_message_def Let_def
    by (simp add: is_done_def terminal_states_def)
  show "\<exists>ord'. map_of (in_flight_orders (on_user_stream_message msg m)) k = Some ord' \<and>
         last_state ord' = s_status msg"
    using stream_tracked [OF id assms live] by simp
  show "emitted m (on_user_stream_message msg m) = [] \<or>
       emitted m (on_user_stream_message msg m) =
         [OrderFilledEvent (current_timestamp m) k (trading_pair ord)
            (trade_type ord) (order_type ord) (get_default (s_tradePrice msg) 0)
            (get_default (s_tradeQuantity msg) 0) (TradeFee (7 / 10000))
            (exchange_order_id ord)]"
    using stream_open_events [OF id assms(1) live] assms(2) by simp
qed

theorem unrecognized_state_update_witness:
  "logs (process_order_update example_order unknown_update example_market) =
     [(DEBUG, ''Unrecognized order update response''), (INFO, ''Filled'')] \<and>
   (\<exists>ord'. map_of (in_flight_orders (process_order_update example_order unknown_update example_market))
       ''buy-ETHUSD-1577836800000000'' = Some ord' \<and>
      last_state ord' = Some ''pendingCancel'' \<and> executed_amount_base ord' = 4 / 10) \<and>
   emitted example_market (process_order_update example_order unknown_update example_market) =
     [OrderFilledEvent 1577836810 ''buy-ETHUSD-1577836800000000'' ''ETHUSD'' BUY LIMIT 100
        (4 / 10) (TradeFee (7 / 10000)) ''4345697765''] \<and>
   (DEBUG, ''Unrecognized order update response'')
     \<in> set (logs (on_user_stream_message unknown_report example_market)) \<and>
   (\<exists>ord'. map_of (in_flight_orders (on_user_stream_message unknown_report example_market))
       ''buy-ETHUSD-1577836800000000'' = Some ord' \<and>
      last_state ord' = Some ''pendingCancel'') \<and>
   emitted example_market (on_user_stream_message unknown_report example_market) = []"
proof -
  have none: "emitted example_market (on_user_stream_message unknown_report example_market) = []"
    by (simp add: on_user_stream_message_def Let_def example_market_def example_order_def
        HitBTCInFlightOrder_init_def unknown_report_def recognized_states_def get_default_def
        py_is_def is_done_def write_back_def logger_def emitted_def)
  show ?thesis
    using unrecognized_state_update [OF example_lookup example_key, of unknown_update
        unknown_report] none
    by (simp add: unknown_update_def unknown_report_def recognized_states_def example_order_def
        HitBTCInFlightOrder_init_def example_market_def)
qed

text \<open>
  The claim as stated fails: after a poll that reports the status \<^verbatim>\<open>pendingCancel\<close> for
  an order last known as \<^verbatim>\<open>new\<close>, the last known state of the order is
  \<^verbatim>\<open>pendingCancel\<close>.
\<close>

theorem unrecognized_state_counterexample:
  "map (\<lambda>(k, ord). last_state ord) (in_flight_orders example_market) = [Some ''new''] \<and>
   map (\<lambda>(k, ord). last_state ord)
     (in_flight_orders
        (snd (update_order_status (\<lambda>oid. Status_rows [Some unknown_update]) example_market)))
   = [Some ''pendingCancel'']"
  by (simp add: update_order_status_def tick_of_def UPDATE_ORDERS_INTERVAL_def Let_def
      poll_tracked_order_def process_order_update_def example_market_def example_order_def
      HitBTCInFlightOrder_init_def unknown_update_def recognized_states_def is_open_def
      is_done_def write_back_def logger_def c_trigger_event_def c_get_fee_def)

section \<open>Cumulative quote amount and fee\<close>

lemma process_filled_events:
  assumes "u_status u = ''filled''" and "executed_amount_base ord < u_cumQuantity u"
  shows "emitted m (process_order_update ord u m) =
     [OrderFilledEvent (current_timestamp m) (client_order_id ord) (trading_pair ord)
        (trade_type ord) (order_type ord) (u_price u)
        (u_cumQuantity u - executed_amount_base ord) (TradeFee (7 / 10000))
        (exchange_order_id ord),
      if trade_type ord = BUY
      then BuyOrderCompletedEvent (current_timestamp m) (client_order_id ord)
             (base_asset ord) (quote_asset ord)
             (case fee_asset ord of Some a \<Rightarrow> a | None \<Rightarrow> base_asset ord)
             (u_cumQuantity u) (u_price u * u_cumQuantity u)
             (u_price u * u_cumQuantity u * (7 / 10000)) (order_type ord)
      else SellOrderCompletedEvent (current_timestamp m) (client_order_id ord)
             (base_asset ord) (quote_asset ord)
             (case fee_asset ord of Some a \<Rightarrow> a | None \<Rightarrow> quote_asset ord)
             (u_cumQuantity u) (u_price u * u_cumQuantity u)
             (u_price u * u_cumQuantity u * (7 / 10000)) (order_type ord)]"
  using assms unfolding process_order_update_def Let_def emitted_def
  by (simp add: is_open_def is_done_def is_cancelled_def c_get_fee_def split: option.splits)

text \<open>
  Claim C10. Whenever a status-poll update raises the executed amount of a tracked order,
  the cumulative executed quote amount of the order becomes the price of the update times
  the new cumulative base amount, and the fee paid becomes that quote amount times 0.0007.
  When the update carries the status \<^verbatim>\<open>filled\<close>, the completion event that follows
  the fill event reports this quote amount and this fee: all of the order valued at the
  price of this last update.
\<close>

theorem fill_reprices_cumulative_quote:
  assumes "map_of (in_flight_orders m) k = Some ord" and "client_order_id ord = k"
    and "executed_amount_base ord < u_cumQuantity u"
  shows "(u_status u \<notin> set terminal_states \<longrightarrow>
      map_of (in_flight_orders (process_order_update ord u m)) k =
        Some (ord\<lparr>last_state := Some (u_status u),
                 executed_amount_base := u_cumQuantity u,
                 executed_amount_quote := u_price u * u_cumQuantity u,
                 fee_paid := u_price u * u_cumQuantity u * (7 / 10000)\<rparr>)) \<and>
    (u_status u = ''filled'' \<longrightarrow>
      emitted m (process_order_update ord u m) =
        [OrderFilledEvent (current_timestamp m) k (trading_pair ord)
           (trade_type ord) (order_type ord) (u_price u)
           (u_cumQuantity u - executed_amount_base ord) (TradeFee (7 / 10000))
           (exchange_order_id ord),
         if trade_type ord = BUY
         then BuyOrderCompletedEvent (current_timestamp m) k
                (base_asset ord) (quote_asset ord)
                (case fee_asset ord of Some a \<Rightarrow> a | None \<Rightarrow> base_asset ord)
                (u_cumQuantity u) (u_price u * u_cumQuantity u)
                (u_price u * u_cumQuantity u * (7 / 10000)) (order_type ord)
         else SellOrderCompletedEvent (current_timestamp m) k
                (base_asset ord) (quote_asset ord)
                (case fee_asset ord of Some a \<Rightarrow> a | None \<Rightarrow> quote_asset ord)
                (u_cumQuantity u) (u_price u * u_cumQuantity u)
                (u_price u * u_cumQuantity u * (7 / 10000)) (order_type ord)])"
proof (intro conjI impI)
  assume "u_status u \<notin> set terminal_states"
  from process_tracked [OF assms(1,2) this] assms(3)
  show "map_of (in_flight_orders (process_order_update ord u m)) k =
        Some (ord\<lparr>last_state := Some (u_status u),
                 executed_amount_base := u_cumQuantity u,
                 executed_amount_quote := u_price u * u_cumQuantity u,
                 fee_paid := u_price u * u_cumQuantity u * (7 / 10000)\<rparr>)"
    by simp
next
  assume "u_status u = ''filled''"
  from process_filled_events [OF this assms(3), of m] assms(2)
  show "emitted m (process_order_update ord u m) =
        [OrderFilledEvent (current_timestamp m) k (trading_pair ord)
           (trade_type ord) (order_type ord) (u_price u)
           (u_cumQuantity u - executed_amount_base ord) (TradeFee (7 / 10000))
           (exchange_order_id ord),
         if trade_type ord = BUY
         then BuyOrderCompletedEvent (current_timestamp m) k
                (base_asset ord) (quote_asset ord)
                (case fee_asset ord of Some a \<Rightarrow> a | None \<Rightarrow> base_asset ord)
                (u_cumQuantity u) (u_price u * u_cumQuantity u)
                (u_price u * u_cumQuantity u * (7 / 10000)) (order_type ord)
         else SellOrderCompletedEvent (current_timestamp m) k
                (base_asset ord) (quote_asset ord)
                (case fee_asset ord of Some a \<Rightarrow> a | None \<Rightarrow> quote_asset ord)
                (u_cumQuantity u) (u_price u * u_cumQuantity u)
                (u_price u * u_cumQuantity u * (7 / 10000)) (order_type ord)]"
    by simp
qed

lemma partly_filled_lookup:
  "map_of (in_flight_orders (process_order_update example_order partial_update example_market))
     ''buy-ETHUSD-1577836800000000'' =
   Some (example_order\<lparr>last_state := Some ''partiallyFilled'', executed_amount_base := 4 / 10,
           executed_amount_quote := 40, fee_paid := 28 / 1000\<rparr>)"
  using process_tracked [OF example_lookup example_key, of partial_update]
  by (simp add: partial_update_def terminal_states_def example_order_def
      HitBTCInFlightOrder_init_def)

theorem fill_reprices_cumulative_quote_witness:
  "emitted (process_order_update example_order partial_update example_market)
     (process_order_update
        (example_order\<lparr>last_state := Some ''partiallyFilled'', executed_amount_base := 4 / 10,
           executed_amount_quote := 40, fee_paid := 28 / 1000\<rparr>)
        filled_update
        (process_order_update example_order partial_update example_market)) =
     [OrderFilledEvent 1577836810 ''buy-ETHUSD-1577836800000000'' ''ETHUSD'' BUY LIMIT 101
        (6 / 10) (TradeFee (7 / 10000)) ''4345697765'',
      BuyOrderCompletedEvent 1577836810 ''buy-ETHUSD-1577836800000000'' ''ETH'' ''USD'' ''ETH''
        1 101 (707 / 10000) LIMIT]"
proof -
  have ts: "current_timestamp (process_order_update example_order partial_update example_market)
      = 1577836810"
    by (simp add: process_order_update_def Let_def is_open_def partial_update_def
        example_market_def split: prod.splits)
  show ?thesis
    using fill_reprices_cumulative_quote [OF partly_filled_lookup, of filled_update] ts
    by (simp add: filled_update_def example_order_def HitBTCInFlightOrder_init_def)
qed

section \<open>Order submission\<close>

text \<open>
  Claim C7. A buy or sell submission whose quantized amount is strictly below the minimum
  order size of the pair fails with a \<^verbatim>\<open>ValueError\<close> and leaves the state as it was:
  no request has reached the request layer and no order has been registered.
\<close>

theorem below_minimum_not_submitted:
  assumes "map_of (trading_rules m) symbol = Some rule"
    and "c_quantize_order_amount h symbol amt m = Inr q"
    and "quantized_price h ot symbol p = Inr dp"
    and "q < min_order_size rule"
  shows "execute_buy h oid symbol amt ot p reply m = (Inl ValueError, m) \<and>
         execute_sell h oid symbol amt ot p reply m = (Inl ValueError, m)"
  using assms by (simp add: execute_buy_def execute_sell_def execute_order_def)

theorem below_minimum_not_submitted_witness:
  "c_quantize_order_amount example_host ''ETHUSD'' (4 / 10000) example_market = Inr 0 \<and>
   execute_buy example_host ''buy-ETHUSD-1577836800000001'' ''ETHUSD'' (4 / 10000) LIMIT 100
     order_accepted_reply example_market = (Inl ValueError, example_market) \<and>
   execute_sell example_host ''sell-ETHUSD-1577836800000001'' ''ETHUSD'' (4 / 10000) LIMIT 100
     order_accepted_reply example_market = (Inl ValueError, example_market)"
proof -
  have r: "map_of (trading_rules example_market) ''ETHUSD'' = Some example_rule"
    by (simp add: example_market_def)
  have q: "c_quantize_order_amount example_host ''ETHUSD'' (4 / 10000) example_market = Inr 0"
    by (simp add: c_quantize_order_amount_def r example_host_def example_rule_def)
  have dp: "quantized_price example_host LIMIT ''ETHUSD'' 100 = Inr 100"
    by (simp add: quantized_price_def example_host_def)
  have lt: "0 < min_order_size example_rule"
    by (simp add: example_rule_def)
  show ?thesis
    using q below_minimum_not_submitted [OF r q dp lt, of "''buy-ETHUSD-1577836800000001''"
        order_accepted_reply]
      below_minimum_not_submitted [OF r q dp lt, of "''sell-ETHUSD-1577836800000001''"
        order_accepted_reply]
    by simp
qed

lemma place_order_state:
  "place_order h oid symbol q is_buy ot dp reply m = (r, m') \<Longrightarrow>
     events m' = events m \<and> in_flight_orders m' = in_flight_orders m \<and>
     current_timestamp m' = current_timestamp m"
  unfolding place_order_def api_request_def Let_def
  by (auto simp: logger_def split: http_reply.splits option.splits if_splits sum.splits)

lemma execute_order_failure:
  assumes "map_of (trading_rules m) symbol = Some rule"
    and "c_quantize_order_amount h symbol amt m = Inr q"
    and "quantized_price h ot symbol p = Inr dp"
    and "\<not> q < min_order_size rule"
    and "fst (place_order h oid symbol q (side = BUY) ot dp reply m) = Inl e"
  shows "e \<noteq> CancelledError \<Longrightarrow>
           fst (execute_order side h oid symbol amt ot p reply m) = Inr () \<and>
           map_of (in_flight_orders (snd (execute_order side h oid symbol amt ot p reply m))) oid
             = None \<and>
           emitted m (snd (execute_order side h oid symbol amt ot p reply m)) =
             [MarketOrderFailureEvent (current_timestamp m) oid ot]"
    and "e = CancelledError \<Longrightarrow>
           fst (execute_order side h oid symbol amt ot p reply m) = Inl CancelledError \<and>
           in_flight_orders (snd (execute_order side h oid symbol amt ot p reply m))
             = in_flight_orders m \<and>
           emitted m (snd (execute_order side h oid symbol amt ot p reply m)) = []"
proof -
  obtain m1 where pl: "place_order h oid symbol q (side = BUY) ot dp reply m = (Inl e, m1)"
    using assms(5) by (cases "place_order h oid symbol q (side = BUY) ot dp reply m") simp
  note st = place_order_state [OF pl]
  show "e \<noteq> CancelledError \<Longrightarrow>
           fst (execute_order side h oid symbol amt ot p reply m) = Inr () \<and>
           map_of (in_flight_orders (snd (execute_order side h oid symbol amt ot p reply m))) oid
             = None \<and>
           emitted m (snd (execute_order side h oid symbol amt ot p reply m)) =
             [MarketOrderFailureEvent (current_timestamp m) oid ot]"
    using assms(1-4) pl st
    by (cases e) (simp_all add: execute_order_def Let_def lookup_stop emitted_def)
  show "e = CancelledError \<Longrightarrow>
           fst (execute_order side h oid symbol amt ot p reply m) = Inl CancelledError \<and>
           in_flight_orders (snd (execute_order side h oid symbol amt ot p reply m))
             = in_flight_orders m \<and>
           emitted m (snd (execute_order side h oid symbol amt ot p reply m)) = []"
    using assms(1-4) pl st
    by (simp add: execute_order_def Let_def emitted_def)
qed

text \<open>
  Claim C9. When a buy or sell submission has passed the checks and the placement call
  fails with an exception other than the cancellation of the task, the submission returns
  normally, the order id is absent from the registry afterwards and exactly one
  \<^verbatim>\<open>MarketOrderFailureEvent\<close> has been emitted. When the placement call is cancelled,
  the cancellation leaves the submission, the registry is as before and no event has been
  emitted.
\<close>

theorem placement_failure_rolls_back:
  assumes "map_of (trading_rules m) symbol = Some rule"
    and "c_quantize_order_amount h symbol amt m = Inr q"
    and "quantized_price h ot symbol p = Inr dp"
    and "\<not> q < min_order_size rule"
    and "fst (place_order h oid symbol q True ot dp reply m) = Inl e"
    and "fst (place_order h oid symbol q False ot dp reply m) = Inl e"
  shows "(e \<noteq> CancelledError \<longrightarrow>
           fst (execute_buy h oid symbol amt ot p reply m) = Inr () \<and>
           map_of (in_flight_orders (snd (execute_buy h oid symbol amt ot p reply m))) oid = None \<and>
           emitted m (snd (execute_buy h oid symbol amt ot p reply m)) =
             [MarketOrderFailureEvent (current_timestamp m) oid ot] \<and>
           fst (execute_sell h oid symbol amt ot p reply m) = Inr () \<and>
           map_of (in_flight_orders (snd (execute_sell h oid symbol amt ot p reply m))) oid = None \<and>
           emitted m (snd (execute_sell h oid symbol amt ot p reply m)) =
             [MarketOrderFailureEvent (current_timestamp m) oid ot]) \<and>
         (e = CancelledError \<longrightarrow>
           fst (execute_buy h oid symbol amt ot p reply m) = Inl CancelledError \<and>
           in_flight_orders (snd (execute_buy h oid symbol amt ot p reply m)) = in_flight_orders m \<and>
           emitted m (snd (execute_buy h oid symbol amt ot p reply m)) = [] \<and>
           fst (execute_sell h oid symbol amt ot p reply m) = Inl CancelledError \<and>
           in_flight_orders (snd (execute_sell h oid symbol amt ot p reply m)) = in_flight_orders m \<and>
           emitted m (snd (execute_sell h oid symbol amt ot p reply m)) = [])"
proof -
  have b: "fst (place_order h oid symbol q (BUY = BUY) ot dp reply m) = Inl e"
    using assms(5) by simp
  have s: "fst (place_order h oid symbol q (SELL = BUY) ot dp reply m) = Inl e"
    using assms(6) by simp
  show ?thesis
    using execute_order_failure [OF assms(1-4) b] execute_order_failure [OF assms(1-4) s]
    by (simp add: execute_buy_def execute_sell_def)
qed

theorem placement_failure_rolls_back_witness:
  "fst (execute_buy example_host ''buy-ETHUSD-1577836800000000'' ''ETHUSD'' (1 / 2) LIMIT 100
          server_error_reply example_market) = Inr () \<and>
   map_of (in_flight_orders (snd (execute_buy example_host ''buy-ETHUSD-1577836800000000''
          ''ETHUSD'' (1 / 2) LIMIT 100 server_error_reply example_market)))
      ''buy-ETHUSD-1577836800000000'' = None \<and>
   emitted example_market (snd (execute_buy example_host ''buy-ETHUSD-1577836800000000''
          ''ETHUSD'' (1 / 2) LIMIT 100 server_error_reply example_market)) =
     [MarketOrderFailureEvent 1577836810 ''buy-ETHUSD-1577836800000000'' LIMIT] \<and>
   fst (execute_sell example_host ''sell-ETHUSD-1577836800000001'' ''ETHUSD'' (1 / 2) LIMIT 100
          (Http_raises CancelledError) example_market) = Inl CancelledError \<and>
   emitted example_market (snd (execute_sell example_host ''sell-ETHUSD-1577836800000001''
          ''ETHUSD'' (1 / 2) LIMIT 100 (Http_raises CancelledError) example_market)) = []"
proof -
  have r: "map_of (trading_rules example_market) ''ETHUSD'' = Some example_rule"
    by (simp add: example_market_def)
  have q: "c_quantize_order_amount example_host ''ETHUSD'' (1 / 2) example_market = Inr (1 / 2)"
    by (simp add: c_quantize_order_amount_def r example_host_def example_rule_def)
  have dp: "quantized_price example_host LIMIT ''ETHUSD'' 100 = Inr 100"
    by (simp add: quantized_price_def example_host_def)
  have ge: "\<not> 1 / 2 < min_order_size example_rule"
    by (simp add: example_rule_def)
  have f1: "fst (place_order example_host ''buy-ETHUSD-1577836800000000'' ''ETHUSD'' (1 / 2)
      is_buy LIMIT 100 server_error_reply example_market) =
      Inl (HitBTCAPIError (JObj [(''error'',
          JObj [(''code'', JNum 500),
                (''message'', JStr (PyStr ''Internal Server Error'' False))])]))" for is_buy
    by (simp add: place_order_def api_request_def server_error_reply_def HitBTCAPIError_init_def)
  have f2: "fst (place_order example_host ''sell-ETHUSD-1577836800000001'' ''ETHUSD'' (1 / 2)
      is_buy LIMIT 100 (Http_raises CancelledError) example_market) = Inl CancelledError" for is_buy
    by (simp add: place_order_def api_request_def)
  have ts: "current_timestamp example_market = 1577836810"
    by (simp add: example_market_def)
  show ?thesis
    using placement_failure_rolls_back [OF r q dp ge f1 f1]
      placement_failure_rolls_back [OF r q dp ge f2 f2] ts
    by simp
qed

section \<open>Client order ids\<close>

lemma floor_rat_numeral: "\<lfloor>(numeral a :: rat) / numeral b\<rfloor> = numeral a div numeral b"
  using floor_divide_of_int_eq [of "numeral a" "numeral b", where ?'a = rat] by simp

lemma of_char_digit:
  assumes "d < 10"
  shows "of_char (digit_char d) = 48 + d"
proof -
  have "of_char (char_of (48 + d)) = (48 + d) mod 256"
    by (rule of_char_of)
  also have "\<dots> = 48 + d"
    using assms by (intro mod_less) simp
  finally show ?thesis
    by (simp only: digit_char_def)
qed

lemma digit_char_inj:
  assumes "d < 10" and "d' < 10" and "digit_char d = digit_char d'"
  shows "d = d'"
proof -
  have "48 + d = (of_char (digit_char d) :: nat)"
    using of_char_digit [OF assms(1)] by (rule sym)
  also have "\<dots> = of_char (digit_char d')"
    by (simp only: assms(3))
  also have "\<dots> = 48 + d'"
    by (rule of_char_digit [OF assms(2)])
  finally show ?thesis by arith
qed

lemma digit_char_not_minus: "d < 10 \<Longrightarrow> digit_char d \<noteq> CHR ''-''"
proof
  assume d: "d < 10" and eq: "digit_char d = CHR ''-''"
  have "(of_char (CHR ''-'') :: nat) = of_char (digit_char d)"
    by (simp only: eq)
  also have "\<dots> = 48 + d"
    by (rule of_char_digit [OF d])
  finally have "(45 :: nat) = 48 + d" by simp
  then show False by arith
qed

lemma str_nat_nonempty: "str_nat n \<noteq> []"
  by (subst str_nat.simps) simp

lemma str_nat_last: "last (str_nat n) = digit_char (n mod 10)"
  by (subst str_nat.simps) simp

lemma str_nat_butlast: "butlast (str_nat n) = (if n < 10 then [] else str_nat (n div 10))"
  by (subst str_nat.simps) simp

lemma str_nat_inj: "str_nat n = str_nat k \<Longrightarrow> n = k"
proof (induction n arbitrary: k rule: less_induct)
  case (less n)
  have "digit_char (n mod 10) = digit_char (k mod 10)"
    using less.prems str_nat_last [of n] str_nat_last [of k] by simp
  then have md: "n mod 10 = k mod 10"
    by (intro digit_char_inj) simp_all
  have bl: "(if n < 10 then [] else str_nat (n div 10)) =
      (if k < 10 then [] else str_nat (k div 10))"
    using less.prems str_nat_butlast [of n] str_nat_butlast [of k] by simp
  show ?case
  proof (cases "n < 10")
    case True
    then have "k < 10"
      using bl str_nat_nonempty [of "k div 10"] by (auto split: if_splits)
    then show ?thesis using True md by simp
  next
    case False
    then have k: "\<not> k < 10"
      using bl str_nat_nonempty [of "n div 10"] by (auto split: if_splits)
    then have "str_nat (n div 10) = str_nat (k div 10)"
      using bl False by simp
    moreover have "n div 10 < n"
      using False by simp
    ultimately have "n div 10 = k div 10"
      using less.IH by blast
    then show ?thesis
      using md by (metis div_mult_mod_eq)
  qed
qed

lemma str_nat_no_minus: "CHR ''-'' \<notin> set (str_nat n)"
proof (induction n rule: less_induct)
  case (less n)
  show ?case
  proof (cases "n < 10")
    case True
    then show ?thesis
      using digit_char_not_minus [of n] by (subst str_nat.simps) auto
  next
    case False
    then have "CHR ''-'' \<notin> set (str_nat (n div 10))"
      using less.IH [of "n div 10"] by simp
    then show ?thesis
      using False digit_char_not_minus [of "n mod 10"] by (subst str_nat.simps) auto
  qed
qed

lemma str_nat_not_minus_first: "str_nat n \<noteq> CHR ''-'' # s"
  using str_nat_no_minus [of n] by (metis list.set_intros(1))

lemma str_int_inj:
  assumes "str_int i = str_int j"
  shows "i = j"
proof (cases "i < 0")
  case True
  show ?thesis
  proof (cases "j < 0")
    case j: True
    then have "str_nat (nat (- i)) = str_nat (nat (- j))"
      using assms True by (simp add: str_int_def)
    then have "nat (- i) = nat (- j)"
      by (rule str_nat_inj)
    then show ?thesis using True j by simp
  next
    case False
    then have "str_nat (nat j) = CHR ''-'' # str_nat (nat (- i))"
      using assms True by (simp add: str_int_def)
    then show ?thesis using str_nat_not_minus_first by blast
  qed
next
  case False
  show ?thesis
  proof (cases "j < 0")
    case True
    then have "str_nat (nat i) = CHR ''-'' # str_nat (nat (- j))"
      using assms False by (simp add: str_int_def)
    then show ?thesis using str_nat_not_minus_first by blast
  next
    case j: False
    then have "str_nat (nat i) = str_nat (nat j)"
      using assms False by (simp add: str_int_def)
    then have "nat i = nat j"
      by (rule str_nat_inj)
    then show ?thesis using False j by simp
  qed
qed

lemma sint_inj: "sint (a :: 64 word) = sint b \<longleftrightarrow> a = b"
  by (auto intro: signed_word_eqI)

text \<open>
  Claim C8, as amended. The client order id is the side, the trading pair and the wall-clock
  time in whole microseconds (\<^verbatim>\<open>time.time() * 1e6\<close> cut to 64 bits); no counter takes
  part. Two calls for the same side and pair get different ids exactly when their
  microsecond readings differ, and the id of a buy differs from the id of any sell.
\<close>

theorem order_id_per_microsecond:
  "(c_buy t1 pair = c_buy t2 pair \<longleftrightarrow> tracking_nonce t1 = tracking_nonce t2) \<and>
   (c_sell t1 pair = c_sell t2 pair \<longleftrightarrow> tracking_nonce t1 = tracking_nonce t2) \<and>
   c_buy t1 pair \<noteq> c_sell t2 pair'"
  using str_int_inj [of "sint (tracking_nonce t1)" "sint (tracking_nonce t2)"]
  by (auto simp: c_buy_def c_sell_def sint_inj)

lemma nonce_quarter: "sint (tracking_nonce (6311347200000001 / 4)) = 1577836800000000"
  by (simp add: tracking_nonce_def floor_rat_numeral)

lemma nonce_half: "sint (tracking_nonce (3155673600000001 / 2)) = 1577836800000000"
  by (simp add: tracking_nonce_def floor_rat_numeral)

lemma str_int_example: "str_int 1577836800000000 = ''1577836800000000''"
  by (simp add: str_int_def str_nat.simps digit_char_def char_of_def bit_Suc_0_iff)

text \<open>
  The claim as stated fails: two calls at different clock readings within one microsecond
  get the same id.
\<close>

theorem same_microsecond_counterexample:
  "(6311347200000001 / 4 :: rat) \<noteq> 3155673600000001 / 2 \<and>
   c_buy (6311347200000001 / 4) ''ETHUSD'' = ''buy-ETHUSD-1577836800000000'' \<and>
   c_buy (3155673600000001 / 2) ''ETHUSD'' = ''buy-ETHUSD-1577836800000000''"
  by (simp add: c_buy_def nonce_quarter nonce_half str_int_example)

section \<open>Cancellation\<close>

text \<open>
  Claim C5. The claim asks that a cancel request answered with the error code 20002 removes
  the order and emits one \<^verbatim>\<open>OrderCancelledEvent\<close>. The code tests
  \<^verbatim>\<open>'20002' in e.error_payload\<close>, and the payload of the venue's answer is a dict whose
  only key is \<^verbatim>\<open>error\<close>: the test fails, the order stays registered and no event is
  emitted.
\<close>

theorem cancel_unknown_order_keeps_tracking:
  "fst (execute_cancel ''ETHUSD'' ''buy-ETHUSD-1577836800000000'' order_not_found_reply
          example_market) = Inr (Some ''buy-ETHUSD-1577836800000000'') \<and>
   in_flight_orders (snd (execute_cancel ''ETHUSD'' ''buy-ETHUSD-1577836800000000''
          order_not_found_reply example_market)) = in_flight_orders example_market \<and>
   events (snd (execute_cancel ''ETHUSD'' ''buy-ETHUSD-1577836800000000''
          order_not_found_reply example_market)) = []"
  by (simp add: execute_cancel_def api_request_def order_not_found_reply_def
      HitBTCAPIError_init_def example_market_def logger_def Let_def)

text \<open>
  Claim C6. The claim asks that \<^verbatim>\<open>cancel_all\<close> reports as successful only the orders
  whose cancellation the venue confirmed. \<^verbatim>\<open>execute_cancel\<close> returns the order id also
  when the venue answers with an error: the order is reported as cancelled while it is
  still registered and no cancellation event has been emitted.
\<close>

theorem cancel_all_reports_error_as_success:
  "fst (cancel_all (\<lambda>oid. Some server_error_reply) example_market) =
     [CancellationResult ''buy-ETHUSD-1577836800000000'' True] \<and>
   in_flight_orders (snd (cancel_all (\<lambda>oid. Some server_error_reply) example_market)) =
     in_flight_orders example_market \<and>
   events (snd (cancel_all (\<lambda>oid. Some server_error_reply) example_market)) = []"
  by (simp add: cancel_all_def execute_cancel_def api_request_def server_error_reply_def
      HitBTCAPIError_init_def example_market_def example_order_def HitBTCInFlightOrder_init_def
      is_open_def logger_def Let_def)

text \<open>
  When no reply comes within the time limit, the one open order of the example is reported
  as not cancelled, after one cancel request.
\<close>

lemma cancel_all_timeout_example:
  "fst (cancel_all (\<lambda>oid. None) example_market) =
     [CancellationResult ''buy-ETHUSD-1577836800000000'' False] \<and>
   requests (snd (cancel_all (\<lambda>oid. None) example_market)) =
     [Request ''DELETE'' ''/api/2/order/buy-ETHUSD-1577836800000000'' True]"
  by (simp add: cancel_all_def execute_cancel_def api_request_def
      example_market_def example_order_def HitBTCInFlightOrder_init_def
      is_open_def logger_def Let_def)

end
